theory Spec2Isabelle
  imports Complex_Main
begin

section \<open>Python values, exceptions and string operations\<close>

text \<open>
  The notebook \<^verbatim>\<open>Comic.ipynb\<close> is Python. A Python \<^verbatim>\<open>str\<close> is modelled as a HOL
  \<^typ>\<open>string\<close>; each \<^typ>\<open>char\<close> stands for one code point below 256, so \<^const>\<open>length\<close>
  is Python's \<^verbatim>\<open>len\<close> on such strings. Python integers are unbounded: \<^typ>\<open>int\<close>.
  An exception is a value of \<open>py_error\<close>, and a computation that may raise returns
  \<open>py_error + 'a\<close> with \<open>Inl\<close> for the exception.
\<close>

datatype py_error =
    KeyError string
  | IndexError
  | AttributeError
  | TypeError
  | ServiceError string

text \<open>The dynamically typed values that the panel dictionaries and the text service hold.\<close>

datatype pyval = PyStr string | PyInt int | PyNone

text \<open>\<^verbatim>\<open>str(n)\<close> for an integer, as the f-strings format it: decimal, with a sign.\<close>

fun digits10 :: "nat \<Rightarrow> string" where
  "digits10 n =
     (if n < 10 then [''0123456789'' ! n]
      else digits10 (n div 10) @ [''0123456789'' ! (n mod 10)])"

declare digits10.simps [simp del]

definition str_int :: "int \<Rightarrow> string" where
  "str_int n = (if n < 0 then CHR ''-'' # digits10 (nat (- n)) else digits10 (nat n))"

text \<open>What an f-string field \<^verbatim>\<open>{v}\<close> prints for a value.\<close>

fun py_str :: "pyval \<Rightarrow> string" where
  "py_str (PyStr s) = s"
| "py_str (PyInt n) = str_int n"
| "py_str PyNone = ''None''"

text \<open>
  \<^verbatim>\<open>str.isspace\<close> on the code points below 256: TAB, LF, VT, FF, CR, the four separators
  0x1C to 0x1F, SPACE, NEL and NBSP. \<^verbatim>\<open>s.strip()\<close> removes them at both ends.
\<close>

definition isspace :: "char \<Rightarrow> bool" where
  "isspace c = ((of_char c :: nat) \<in> {9, 10, 11, 12, 13, 28, 29, 30, 31, 32, 133, 160})"

definition strip :: "string \<Rightarrow> string" where
  "strip s = rev (dropWhile isspace (rev (dropWhile isspace s)))"

text \<open>
  \<^verbatim>\<open>str.lower\<close> on the code points below 256: the letters A to Z and the Latin-1 capitals
  0xC0 to 0xDE (the multiplication sign 0xD7 apart) move up by 32.
\<close>

definition lower_chr :: "char \<Rightarrow> char" where
  "lower_chr c =
     (let n = (of_char c :: nat)
      in if (65 \<le> n \<and> n \<le> 90) \<or> (192 \<le> n \<and> n \<le> 222 \<and> n \<noteq> 215)
         then char_of (n + 32) else c)"

definition lower :: "string \<Rightarrow> string" where
  "lower s = map lower_chr s"

text \<open>
  \<^verbatim>\<open>s.split(sep)\<close> for a separator of one character: every occurrence of the separator
  cuts, so the result always has at least one part (\<^verbatim>\<open>''.split('|') == ['']\<close>).
\<close>

fun split_chr :: "char \<Rightarrow> string \<Rightarrow> string list" where
  "split_chr sep [] = [[]]"
| "split_chr sep (c # cs) =
     (if c = sep then [] # split_chr sep cs
      else (case split_chr sep cs of
              [] \<Rightarrow> [[c]]
            | p # ps \<Rightarrow> (c # p) # ps))"

text \<open>
  The two operations the parser applies to the service's answer. On a value that is not a
  \<^verbatim>\<open>str\<close> the attribute \<^verbatim>\<open>split\<close> does not exist and slicing is not
  defined: Python raises.
\<close>

fun py_split :: "pyval \<Rightarrow> char \<Rightarrow> py_error + string list" where
  "py_split (PyStr s) sep = Inr (split_chr sep s)"
| "py_split (PyInt n) sep = Inl AttributeError"
| "py_split PyNone sep = Inl AttributeError"

fun py_slice_to :: "pyval \<Rightarrow> nat \<Rightarrow> py_error + string" where
  "py_slice_to (PyStr s) n = Inr (take n s)"
| "py_slice_to (PyInt k) n = Inl TypeError"
| "py_slice_to PyNone n = Inl TypeError"

text \<open>\<^verbatim>\<open>len(v)\<close> and \<^verbatim>\<open>v[:n] + "..."\<close>, as the composer applies them to a caption.\<close>

fun py_len :: "pyval \<Rightarrow> py_error + nat" where
  "py_len (PyStr s) = Inr (length s)"
| "py_len (PyInt k) = Inl TypeError"
| "py_len PyNone = Inl TypeError"

text \<open>
  A dictionary literal with string keys, in insertion order; \<^verbatim>\<open>d[k]\<close> raises
  \<^verbatim>\<open>KeyError\<close> on a missing key.
\<close>

type_synonym pydict = "(string \<times> pyval) list"

definition getitem :: "pydict \<Rightarrow> string \<Rightarrow> py_error + pyval" where
  "getitem d k = (case map_of d k of None \<Rightarrow> Inl (KeyError k) | Some v \<Rightarrow> Inr v)"


section \<open>Phase 1: StoryGenerator\<close>

text \<open>
  The text model is an external service. \<open>generator self i p kw\<close> is the outcome of the
  call \<^verbatim>\<open>self.generator(p, **kw)\<close> in iteration \<open>i\<close> of the loop: either an exception or
  the response, a list of dictionaries. The iteration index is an argument because sampling
  is enabled: the same prompt may be answered differently from one call to the next.
\<close>

record gen_kwargs =
  max_length :: nat
  do_sample :: bool
  temperature :: real

record story_generator =
  model_name :: string
  generator :: "nat \<Rightarrow> string \<Rightarrow> gen_kwargs \<Rightarrow> py_error + pydict list"

definition text_kwargs :: gen_kwargs where
  "text_kwargs = \<lparr>max_length = 200, do_sample = True, temperature = 0.7\<rparr>"

definition panel_types :: "string list" where
  "panel_types = [''Introduction'', ''Storyline'', ''Climax'', ''Resolution'']"

text \<open>The triple-quoted f-string of the loop body, with its line breaks and indentation.\<close>

definition nl :: string where
  "nl = [CHR 0x0A]"

definition indent :: string where
  "indent = replicate 12 (CHR '' '')"

definition panel_prompt :: "string \<Rightarrow> string \<Rightarrow> string" where
  "panel_prompt panel_type prompt =
     nl @ indent @ ''Create a '' @ lower panel_type @ '' panel for a comic about: '' @ prompt @ nl
     @ nl
     @ indent @ ''Include:'' @ nl
     @ indent @ ''1. A brief description (30-50 words)'' @ nl
     @ indent @ ''2. One line of dialogue'' @ nl
     @ indent @ ''3. Detailed visual description for an image'' @ nl
     @ nl
     @ indent @ ''Format: Description | Dialogue | Visual'' @ nl
     @ indent"

text \<open>
  The body of the \<^verbatim>\<open>try\<close> block: the three fields, or the exception raised on the way.
\<close>

definition parse_content ::
  "nat \<Rightarrow> string \<Rightarrow> string \<Rightarrow> pyval \<Rightarrow> py_error + (string \<times> string \<times> string)" where
  "parse_content i panel_type prompt content =
     (case py_split content (CHR ''|'') of
        Inl e \<Rightarrow> Inl e
      | Inr parts \<Rightarrow>
          if length parts \<ge> 3 then
            Inr (strip (parts ! 0), strip (parts ! 1), strip (parts ! 2))
          else
            (case py_slice_to content 100 of
               Inl e \<Rightarrow> Inl e
             | Inr s \<Rightarrow>
                 Inr (strip s,
                      ''Panel '' @ str_int (int i + 1) @ '' dialogue'',
                      ''Comic panel showing '' @ lower panel_type @ '' about '' @ prompt
                        @ '', detailed illustration'')))"

text \<open>
  The \<^verbatim>\<open>try\<close> statement with its bare \<^verbatim>\<open>except\<close>: any exception of the body is replaced
  by the handler's three strings.
\<close>

definition panel_fields :: "nat \<Rightarrow> string \<Rightarrow> string \<Rightarrow> pyval \<Rightarrow> string \<times> string \<times> string" where
  "panel_fields i panel_type prompt content =
     (case parse_content i panel_type prompt content of
        Inr parsed \<Rightarrow> parsed
      | Inl e \<Rightarrow>
          (''Panel '' @ str_int (int i + 1) @ '': '' @ panel_type,
           ''Panel '' @ str_int (int i + 1) @ '' dialogue'',
           ''Comic panel showing '' @ lower panel_type @ '' about '' @ prompt
             @ '', detailed illustration''))"

text \<open>The dictionary appended to \<^verbatim>\<open>panels\<close>.\<close>

definition make_panel :: "nat \<Rightarrow> string \<Rightarrow> string \<times> string \<times> string \<Rightarrow> pydict" where
  "make_panel i panel_type parsed =
     (case parsed of (text, dialogue, image_prompt) \<Rightarrow>
        [(''panel'', PyInt (int i + 1)),
         (''type'', PyStr panel_type),
         (''text'', PyStr text),
         (''dialogue'', PyStr dialogue),
         (''image_prompt'', PyStr image_prompt)])"

text \<open>
  \<^verbatim>\<open>response[0]['generated_text']\<close>: an empty response has no first element, and a first
  element without the key has no text.
\<close>

definition generated_text :: "pydict list \<Rightarrow> py_error + pyval" where
  "generated_text response =
     (case response of
        [] \<Rightarrow> Inl IndexError
      | first # others \<Rightarrow> getitem first ''generated_text'')"

text \<open>
  The two statements before the \<^verbatim>\<open>try\<close>: the call of the service, and the read of the
  generated text from its response.
\<close>

definition fetch_content :: "story_generator \<Rightarrow> nat \<Rightarrow> string \<Rightarrow> py_error + pyval" where
  "fetch_content self i panel_prompt_text =
     (case generator self i panel_prompt_text text_kwargs of
        Inl e \<Rightarrow> Inl e
      | Inr response \<Rightarrow> generated_text response)"

text \<open>
  The loop over \<^verbatim>\<open>enumerate(panel_types)\<close>. The call and the read stand before the
  \<^verbatim>\<open>try\<close>: an exception of either leaves the loop and the function.
\<close>

fun story_loop ::
  "story_generator \<Rightarrow> string \<Rightarrow> (nat \<times> string) list \<Rightarrow> pydict list \<Rightarrow> py_error + pydict list" where
  "story_loop self prompt [] panels = Inr panels"
| "story_loop self prompt ((i, panel_type) # rest) panels =
     (case fetch_content self i (panel_prompt panel_type prompt) of
        Inl e \<Rightarrow> Inl e
      | Inr content \<Rightarrow>
          story_loop self prompt rest
            (panels @ [make_panel i panel_type (panel_fields i panel_type prompt content)]))"

definition generate_story :: "story_generator \<Rightarrow> string \<Rightarrow> py_error + pydict list" where
  "generate_story self prompt = story_loop self prompt (enumerate 0 panel_types) []"


section \<open>Phase 2: ImageGenerator\<close>

text \<open>
  The diffusion pipeline is the second external service. \<open>pipe self k p kw\<close> is the outcome
  of \<^verbatim>\<open>self.pipe(p, **kw).images[0]\<close> under \<^verbatim>\<open>torch.autocast\<close> for the \<open>k\<close>-th image
  of a run: an exception or an image. Images are opaque values of a type \<open>'img\<close>.
\<close>

record sd_kwargs =
  guidance_scale :: real
  num_inference_steps :: nat
  height :: nat
  width :: nat

record 'img image_generator =
  model_id :: string
  pipe :: "nat \<Rightarrow> string \<Rightarrow> sd_kwargs \<Rightarrow> py_error + 'img"

definition image_kwargs :: sd_kwargs where
  "image_kwargs =
     \<lparr>guidance_scale = 7.5, num_inference_steps = 30, height = 512, width = 512\<rparr>"

definition styles :: "(string \<times> string) list" where
  "styles =
     [(''comic'', ''comic book style, detailed illustration''),
      (''manga'', ''manga style, black and white''),
      (''superhero'', ''superhero comic style, dynamic pose''),
      (''cartoon'', ''cartoon style, colorful and vibrant'')]"

text \<open>
  \<^verbatim>\<open>styles.get(style, styles["comic"])\<close>: the default \<^verbatim>\<open>styles["comic"]\<close> is an argument, so
  it is looked up first, whatever the style.
\<close>

definition style_prompt :: "string \<Rightarrow> py_error + string" where
  "style_prompt style =
     (case map_of styles ''comic'' of
        None \<Rightarrow> Inl (KeyError ''comic'')
      | Some dflt \<Rightarrow> Inr (case map_of styles style of None \<Rightarrow> dflt | Some v \<Rightarrow> v))"

definition generate_image ::
  "'img image_generator \<Rightarrow> nat \<Rightarrow> string \<Rightarrow> string \<Rightarrow> py_error + 'img" where
  "generate_image self k prompt style =
     (case style_prompt style of
        Inl e \<Rightarrow> Inl e
      | Inr sp \<Rightarrow>
          (let enhanced_prompt = sp @ '', '' @ prompt
           in pipe self k enhanced_prompt image_kwargs))"


section \<open>Phase 3: ComicAssembler\<close>

text \<open>
  A PIL image under construction is the record of how it was created and of the drawing
  calls made on it since, in order. What PIL does with a call (clipping, conversion of
  modes, rasterising a font) is not modelled.
\<close>

type_synonym colour = "nat \<times> nat \<times> nat"

datatype font = TrueType string nat | DefaultFont

datatype 'img draw_op =
    Paste 'img "int \<times> int"
  | Rectangle "int list" "colour option" "colour option" int
  | Text "int \<times> int" string colour font

record 'img canvas =
  canvas_mode :: string
  canvas_size :: "int \<times> int"
  canvas_color :: colour
  drawn :: "'img draw_op list"

definition Image_new :: "string \<Rightarrow> int \<times> int \<Rightarrow> colour \<Rightarrow> 'img canvas" where
  "Image_new m sz col = \<lparr>canvas_mode = m, canvas_size = sz, canvas_color = col, drawn = []\<rparr>"

definition paste :: "'img canvas \<Rightarrow> 'img \<Rightarrow> int \<times> int \<Rightarrow> 'img canvas" where
  "paste comic img box = comic\<lparr>drawn := drawn comic @ [Paste img box]\<rparr>"

definition draw_rectangle ::
  "'img canvas \<Rightarrow> int list \<Rightarrow> colour option \<Rightarrow> colour option \<Rightarrow> int \<Rightarrow> 'img canvas" where
  "draw_rectangle comic xy fill outline w =
     comic\<lparr>drawn := drawn comic @ [Rectangle xy fill outline w]\<rparr>"

definition draw_text ::
  "'img canvas \<Rightarrow> int \<times> int \<Rightarrow> string \<Rightarrow> colour \<Rightarrow> font \<Rightarrow> 'img canvas" where
  "draw_text comic xy s fill fnt = comic\<lparr>drawn := drawn comic @ [Text xy s fill fnt]\<rparr>"

text \<open>
  The constructor: \<open>truetype name size\<close> is the outcome of \<^verbatim>\<open>ImageFont.truetype\<close>. The three
  loads share one \<^verbatim>\<open>try\<close>; if any raises, all three fonts are the default font.
\<close>

record comic_assembler =
  font_title :: font
  font_text :: font
  font_dialogue :: font


text \<open>The layout constants of \<^verbatim>\<open>assemble_comic\<close>.\<close>

definition panel_width :: int where
  "panel_width = 512"

definition panel_height :: int where
  "panel_height = 600"

definition border :: int where
  "border = 20"

definition comic_width :: int where
  "comic_width = panel_width * 2 + border * 3"

definition comic_height :: int where
  "comic_height = panel_height * 2 + border * 3"

text \<open>\<^verbatim>\<open>row = i // 2\<close>, \<^verbatim>\<open>col = i % 2\<close> and the panel position \<^verbatim>\<open>(x, y)\<close> computed from them.\<close>

definition panel_origin :: "nat \<Rightarrow> int \<times> int" where
  "panel_origin i =
     (let row = int (i div 2);
          col = int (i mod 2);
          x = border + col * (panel_width + border);
          y = border + row * (panel_height + border)
      in (x, y))"

text \<open>
  The caption cut, written twice in the loop body (with 60 and 57 for the description, with
  40 and 37 for the dialogue): \<^verbatim>\<open>if len(v) > limit: v = v[:keep] + "..."\<close>.
\<close>

definition shorten :: "pyval \<Rightarrow> nat \<Rightarrow> nat \<Rightarrow> py_error + pyval" where
  "shorten v limit keep =
     (case py_len v of
        Inl e \<Rightarrow> Inl e
      | Inr n \<Rightarrow>
          if n > limit then
            (case py_slice_to v keep of
               Inl e \<Rightarrow> Inl e
             | Inr s \<Rightarrow> Inr (PyStr (s @ ''...'')))
          else Inr v)"

definition dquote :: string where
  "dquote = [CHR 0x22]"

text \<open>One iteration of the loop over \<^verbatim>\<open>enumerate(zip(story_data, images))\<close>.\<close>

definition place_panel ::
  "comic_assembler \<Rightarrow> nat \<Rightarrow> pydict \<Rightarrow> 'img \<Rightarrow> 'img canvas \<Rightarrow> py_error + 'img canvas" where
  "place_panel self i panel img comic0 =
     (case panel_origin i of (x, y) \<Rightarrow>
        (let comic1 = paste comic0 img (x, y);
             comic2 = draw_rectangle comic1 [x, y, x + panel_width, y + panel_height - 88]
                        None (Some (0, 0, 0)) 2;
             comic3 = draw_rectangle comic2 [x, y + panel_width, x + panel_width, y + panel_height]
                        (Some (240, 240, 240)) (Some (0, 0, 0)) 2
         in case getitem panel ''panel'' of
              Inl e \<Rightarrow> Inl e
            | Inr number \<Rightarrow>
           (case getitem panel ''type'' of
              Inl e \<Rightarrow> Inl e
            | Inr ptype \<Rightarrow>
           (let comic4 = draw_text comic3 (x + 10, y + panel_width + 5)
                           (''Panel '' @ py_str number @ '': '' @ py_str ptype)
                           (0, 0, 0) (font_text self)
            in case getitem panel ''text'' of
                 Inl e \<Rightarrow> Inl e
               | Inr text0 \<Rightarrow>
              (case shorten text0 60 57 of
                 Inl e \<Rightarrow> Inl e
               | Inr text1 \<Rightarrow>
              (let comic5 = draw_text comic4 (x + 10, y + panel_width + 30) (py_str text1)
                              (0, 0, 100) (font_text self)
               in case getitem panel ''dialogue'' of
                    Inl e \<Rightarrow> Inl e
                  | Inr dialogue0 \<Rightarrow>
                 (case shorten dialogue0 40 37 of
                    Inl e \<Rightarrow> Inl e
                  | Inr dialogue1 \<Rightarrow>
                      Inr (draw_text comic5 (x + 10, y + panel_width + 60)
                             (dquote @ py_str dialogue1 @ dquote)
                             (150, 0, 0) (font_dialogue self)))))))))"

fun place_panels ::
  "comic_assembler \<Rightarrow> (nat \<times> pydict \<times> 'img) list \<Rightarrow> 'img canvas \<Rightarrow> py_error + 'img canvas" where
  "place_panels self [] comic = Inr comic"
| "place_panels self ((i, panel, img) # rest) comic =
     (case place_panel self i panel img comic of
        Inl e \<Rightarrow> Inl e
      | Inr comic' \<Rightarrow> place_panels self rest comic')"

definition assemble_comic ::
  "comic_assembler \<Rightarrow> pydict list \<Rightarrow> 'img list \<Rightarrow> py_error + 'img canvas" where
  "assemble_comic self story_data images =
     (let comic = Image_new ''RGB'' (comic_width, comic_height) (255, 255, 255);
          title_text = ''Comic Story'';
          comic = draw_text comic (comic_width div 2 - 100, border div 2) title_text
                    (0, 0, 0) (font_title self)
      in place_panels self (enumerate 0 (zip story_data images)) comic)"


section \<open>Main function\<close>

text \<open>
  What \<^verbatim>\<open>generate_comic\<close> meets outside the notebook: loading the two models (a load
  raises or yields the service), the font loader, the clock, the outcome of writing the
  file, and the outcome of the display at the end: \<open>display env comic path title\<close> is what
  the lines after the save do (the print of the path and the matplotlib calls that show the
  comic under the title), nothing or an exception. The file system
  is the list of the files written so far, oldest first, each with its path and what was
  written. The external libraries may write files of their own (a model cache, a font
  cache): \<open>library_writes env ph\<close> lists what they write during phase \<open>ph\<close> of the run.
  The console output of the earlier phases is not modelled.
\<close>

datatype 'img file_content = Image_file "'img canvas" | Library_file












section \<open>Observations and stub services\<close>

text \<open>The images pasted on a canvas, in order, each with the position it was pasted at.\<close>

fun pasted :: "'img draw_op list \<Rightarrow> ('img \<times> (int \<times> int)) list" where
  "pasted [] = []"
| "pasted (Paste img xy # ops) = (img, xy) # pasted ops"
| "pasted (Rectangle xy fill outline w # ops) = pasted ops"
| "pasted (Text xy s fill fnt # ops) = pasted ops"


text \<open>
  The six drawing calls of one iteration, in order, for a panel at position \<open>(x, y)\<close> whose
  lookups gave \<open>number\<close> and \<open>ptype\<close> and the strings \<open>t\<close> and \<open>d\<close>. Lemma
  \<open>place_panel_drawn\<close> below proves that this is what \<open>place_panel\<close> adds to the canvas.
\<close>

definition panel_ops ::
  "comic_assembler \<Rightarrow> int \<times> int \<Rightarrow> pyval \<Rightarrow> pyval \<Rightarrow> string \<Rightarrow> string \<Rightarrow> 'img
     \<Rightarrow> 'img draw_op list" where
  "panel_ops self xy number ptype t d img =
     (case xy of (x, y) \<Rightarrow>
        [Paste img (x, y),
         Rectangle [x, y, x + panel_width, y + panel_height - 88] None (Some (0, 0, 0)) 2,
         Rectangle [x, y + panel_width, x + panel_width, y + panel_height]
           (Some (240, 240, 240)) (Some (0, 0, 0)) 2,
         Text (x + 10, y + panel_width + 5)
           (''Panel '' @ py_str number @ '': '' @ py_str ptype) (0, 0, 0) (font_text self),
         Text (x + 10, y + panel_width + 30)
           (if 60 < length t then take 57 t @ ''...'' else t) (0, 0, 100) (font_text self),
         Text (x + 10, y + panel_width + 60)
           (dquote @ (if 40 < length d then take 37 d @ ''...'' else d) @ dquote)
           (150, 0, 0) (font_dialogue self)])"

text \<open>
  A panel that the composer can draw: the four keys it reads are present, and the two
  captions it measures are strings.
\<close>

definition drawable :: "pydict \<Rightarrow> bool" where
  "drawable panel =
     (case (map_of panel ''panel'', map_of panel ''type'',
            map_of panel ''text'', map_of panel ''dialogue'') of
        (Some number, Some ptype, Some (PyStr t), Some (PyStr d)) \<Rightarrow> True
      | _ \<Rightarrow> False)"

text \<open>
  Deterministic services for examples: a text service that answers every call with the
  same value, one that raises in a chosen iteration, one whose response is the empty list,
  an image service whose image is the number of the call, an environment built from them
  with no TrueType font installed, and the same environment with an image service that
  raises.
\<close>

definition stub_story_generator :: "pyval \<Rightarrow> story_generator" where
  "stub_story_generator answer =
     \<lparr>model_name = ''stub'', generator = (\<lambda>i p kw. Inr [[(''generated_text'', answer)]])\<rparr>"

definition failing_story_generator :: "nat \<Rightarrow> story_generator" where
  "failing_story_generator k =
     \<lparr>model_name = ''stub'',
      generator = (\<lambda>i p kw. if i = k then Inl (ServiceError ''CUDA out of memory'')
                              else Inr [[(''generated_text'', PyStr ''A | B | C'')]])\<rparr>"

definition empty_response_story_generator :: story_generator where
  "empty_response_story_generator = \<lparr>model_name = ''stub'', generator = (\<lambda>i p kw. Inr [])\<rparr>"

definition stub_image_generator :: "nat image_generator" where
  "stub_image_generator = \<lparr>model_id = ''stub'', pipe = (\<lambda>k p kw. Inr k)\<rparr>"



definition default_assembler :: comic_assembler where
  "default_assembler =
     \<lparr>font_title = DefaultFont, font_text = DefaultFont, font_dialogue = DefaultFont\<rparr>"

definition sample_panel :: "nat \<Rightarrow> string \<Rightarrow> string \<Rightarrow> string \<Rightarrow> pydict" where
  "sample_panel i panel_type t d =
     [(''panel'', PyInt (int i + 1)), (''type'', PyStr panel_type), (''text'', PyStr t),
      (''dialogue'', PyStr d), (''image_prompt'', PyStr ''a robot'')]"

definition sample_story :: "pydict list" where
  "sample_story =
     [sample_panel 0 ''Introduction''
        ''A small robot finds a box of paints in the attic and opens it slowly''
        ''What are these colours for, and why do they smell so odd?'',
      sample_panel 1 ''Storyline'' ''It paints the wall'' ''Hello'',
      sample_panel 2 ''Climax'' ''The paint runs out'' ''Oh no'',
      sample_panel 3 ''Resolution'' ''It mixes new paint'' ''Done'']"


section \<open>Properties of story generation\<close>

lemma split_chr_not_Nil: "split_chr sep s \<noteq> []"
  by (induction s) (auto split: list.splits)

lemma length_split_chr: "length (split_chr sep s) = Suc (count_list s sep)"
proof (induction s)
  case Nil
  show ?case by simp
next
  case (Cons c cs)
  then show ?case
    by (cases "split_chr sep cs") (auto simp: split_chr_not_Nil)
qed

lemma enumerate_panel_types:
  "enumerate 0 panel_types =
     [(0, ''Introduction''), (1, ''Storyline''), (2, ''Climax''), (3, ''Resolution'')]"
  by (simp add: panel_types_def)

lemma generate_story_returns:
  assumes "\<And>i. i < 4 \<Longrightarrow>
             fetch_content self i (panel_prompt (panel_types ! i) prompt) = Inr (content i)"
  shows "generate_story self prompt =
           Inr (map (\<lambda>i. make_panel i (panel_types ! i)
                            (panel_fields i (panel_types ! i) prompt (content i)))
                  [0, 1, 2, 3])"
proof -
  have c0: "fetch_content self 0 (panel_prompt ''Introduction'' prompt) = Inr (content 0)"
    using assms [of 0] by (simp add: panel_types_def)
  have c1: "fetch_content self (Suc 0) (panel_prompt ''Storyline'' prompt) = Inr (content 1)"
    using assms [of 1] by (simp add: panel_types_def)
  have c2: "fetch_content self 2 (panel_prompt ''Climax'' prompt) = Inr (content 2)"
    using assms [of 2] by (simp add: panel_types_def)
  have c3: "fetch_content self 3 (panel_prompt ''Resolution'' prompt) = Inr (content 3)"
    using assms [of 3] by (simp add: panel_types_def)
  show ?thesis
    unfolding generate_story_def enumerate_panel_types
    by (simp add: c0 c1 c2 c3 panel_types_def)
qed


lemma panel_fields_parts:
  assumes "2 \<le> count_list s (CHR ''|'')"
  shows "panel_fields i panel_type prompt (PyStr s) =
           (strip (split_chr (CHR ''|'') s ! 0), strip (split_chr (CHR ''|'') s ! 1),
            strip (split_chr (CHR ''|'') s ! 2))"
  using assms by (simp add: panel_fields_def parse_content_def length_split_chr)

lemma panel_fields_few_pipes:
  assumes "count_list s (CHR ''|'') < 2"
  shows "panel_fields i panel_type prompt (PyStr s) =
           (strip (take 100 s),
            ''Panel '' @ str_int (int i + 1) @ '' dialogue'',
            ''Comic panel showing '' @ lower panel_type @ '' about '' @ prompt
              @ '', detailed illustration'')"
  using assms by (simp add: panel_fields_def parse_content_def length_split_chr)

lemma parse_content_str: "\<exists>r. parse_content i panel_type prompt (PyStr s) = Inr r"
  by (simp add: parse_content_def)

lemma panel_fields_raises:
  assumes "parse_content i panel_type prompt content = Inl e"
  shows "panel_fields i panel_type prompt content =
           (''Panel '' @ str_int (int i + 1) @ '': '' @ panel_type,
            ''Panel '' @ str_int (int i + 1) @ '' dialogue'',
            ''Comic panel showing '' @ lower panel_type @ '' about '' @ prompt
              @ '', detailed illustration'')"
  using assms by (simp add: panel_fields_def)

lemma getitem_make_panel:
  "getitem (make_panel i panel_type (t, d, p)) ''panel'' = Inr (PyInt (int i + 1))"
  "getitem (make_panel i panel_type (t, d, p)) ''type'' = Inr (PyStr panel_type)"
  "getitem (make_panel i panel_type (t, d, p)) ''text'' = Inr (PyStr t)"
  "getitem (make_panel i panel_type (t, d, p)) ''dialogue'' = Inr (PyStr d)"
  "getitem (make_panel i panel_type (t, d, p)) ''image_prompt'' = Inr (PyStr p)"
  by (simp_all add: getitem_def make_panel_def)


lemma getitem_make_panel_type:
  "getitem (make_panel i panel_type parsed) ''type'' = Inr (PyStr panel_type)"
  by (cases parsed) (simp add: getitem_def make_panel_def)

lemma generate_story_returns_ex:
  assumes "\<And>i. i < 4 \<Longrightarrow>
             \<exists>content. fetch_content self i (panel_prompt (panel_types ! i) prompt) = Inr content"
  shows "\<exists>content.
           (\<forall>i. i < 4 \<longrightarrow>
              fetch_content self i (panel_prompt (panel_types ! i) prompt) = Inr (content i)) \<and>
           generate_story self prompt =
             Inr (map (\<lambda>i. make_panel i (panel_types ! i)
                              (panel_fields i (panel_types ! i) prompt (content i)))
                    [0, 1, 2, 3])"
proof -
  have "\<forall>i. \<exists>content. i < 4 \<longrightarrow>
          fetch_content self i (panel_prompt (panel_types ! i) prompt) = Inr content"
    using assms by blast
  then have "\<exists>content. \<forall>i. i < 4 \<longrightarrow>
          fetch_content self i (panel_prompt (panel_types ! i) prompt) = Inr (content i)"
    by (rule choice)
  then obtain content where
    c: "\<forall>i. i < 4 \<longrightarrow>
          fetch_content self i (panel_prompt (panel_types ! i) prompt) = Inr (content i)" ..
  have "generate_story self prompt =
          Inr (map (\<lambda>i. make_panel i (panel_types ! i)
                           (panel_fields i (panel_types ! i) prompt (content i)))
                 [0, 1, 2, 3])"
    by (rule generate_story_returns) (use c in blast)
  with c show ?thesis by blast
qed

lemma lower_panel_types:
  "lower ''Introduction'' = ''introduction''" "lower ''Storyline'' = ''storyline''"
  "lower ''Climax'' = ''climax''" "lower ''Resolution'' = ''resolution''"
  by (simp_all add: lower_def lower_chr_def char_of_eq_iff)

lemma nth_four:
  assumes "i < 4"
  shows "map f [0, 1, 2, 3::nat] ! i = f i"
proof -
  have "i = 0 \<or> i = 1 \<or> i = 2 \<or> i = 3" using assms by arith
  then show ?thesis by auto
qed


section \<open>Properties of composition\<close>

lemma pasted_append: "pasted (xs @ ys) = pasted xs @ pasted ys"
  by (induction xs rule: pasted.induct) simp_all

lemma drawableE:
  assumes "drawable panel"
  obtains number ptype t d where
    "getitem panel ''panel'' = Inr number" "getitem panel ''type'' = Inr ptype"
    "getitem panel ''text'' = Inr (PyStr t)" "getitem panel ''dialogue'' = Inr (PyStr d)"
  using assms
  by (auto simp: drawable_def getitem_def split: option.splits pyval.splits)

lemma drawableI:
  assumes "getitem panel ''panel'' = Inr number" "getitem panel ''type'' = Inr ptype"
    "getitem panel ''text'' = Inr (PyStr t)" "getitem panel ''dialogue'' = Inr (PyStr d)"
  shows "drawable panel"
  using assms
  by (auto simp: drawable_def getitem_def split: option.splits pyval.splits)

lemma shorten_str:
  "shorten (PyStr s) limit keep =
     Inr (PyStr (if limit < length s then take keep s @ ''...'' else s))"
  by (simp add: shorten_def)

lemma shorten_Inr: "shorten v limit keep = Inr w \<Longrightarrow> \<exists>s. v = PyStr s"
  by (cases v) (simp_all add: shorten_def)

lemma place_panel_drawn:
  assumes "getitem panel ''panel'' = Inr number" "getitem panel ''type'' = Inr ptype"
    "getitem panel ''text'' = Inr (PyStr t)" "getitem panel ''dialogue'' = Inr (PyStr d)"
  shows "place_panel self i panel img comic =
           Inr (comic\<lparr>drawn := drawn comic
                         @ panel_ops self (panel_origin i) number ptype t d img\<rparr>)"
proof -
  obtain x y where xy: "panel_origin i = (x, y)" by (cases "panel_origin i")
  show ?thesis
    using assms
    by (simp add: place_panel_def xy panel_ops_def shorten_str paste_def draw_rectangle_def
          draw_text_def)
qed

lemma pasted_panel_ops: "pasted (panel_ops self xy number ptype t d img) = [(img, xy)]"
  by (cases xy) (simp add: panel_ops_def)

lemma length_panel_ops: "length (panel_ops self xy number ptype t d img) = 6"
  by (cases xy) (simp add: panel_ops_def)

lemma place_panel_Inr_drawable:
  assumes "place_panel self i panel img comic = Inr c"
  shows "drawable panel"
proof -
  obtain x y where xy: "panel_origin i = (x, y)" by (cases "panel_origin i")
  from assms xy obtain number ptype text0 text1 dialogue0 dialogue1 where
    g: "getitem panel ''panel'' = Inr number" "getitem panel ''type'' = Inr ptype"
       "getitem panel ''text'' = Inr text0" "shorten text0 60 57 = Inr text1"
       "getitem panel ''dialogue'' = Inr dialogue0" "shorten dialogue0 40 37 = Inr dialogue1"
    by (auto simp: place_panel_def Let_def split: sum.splits)
  from g(4) obtain t where "text0 = PyStr t" by (auto dest: shorten_Inr)
  moreover from g(6) obtain d where "dialogue0 = PyStr d" by (auto dest: shorten_Inr)
  ultimately show ?thesis using g by (auto intro: drawableI)
qed

lemma place_panel_drawable:
  assumes "drawable panel"
  shows "\<exists>ops. place_panel self i panel img comic = Inr (comic\<lparr>drawn := drawn comic @ ops\<rparr>)
           \<and> pasted ops = [(img, panel_origin i)] \<and> length ops = 6"
proof -
  from assms obtain number ptype t d where
    g: "getitem panel ''panel'' = Inr number" "getitem panel ''type'' = Inr ptype"
       "getitem panel ''text'' = Inr (PyStr t)" "getitem panel ''dialogue'' = Inr (PyStr d)"
    by (rule drawableE)
  show ?thesis
    unfolding place_panel_drawn [OF g]
    by (intro exI conjI, rule refl) (simp_all add: pasted_panel_ops length_panel_ops)
qed

lemma place_panels_drawable:
  assumes "\<forall>(i, panel, img) \<in> set its. drawable panel"
  shows "\<exists>ops. place_panels self its comic = Inr (comic\<lparr>drawn := drawn comic @ ops\<rparr>)
           \<and> pasted ops = map (\<lambda>(i, panel, img). (img, panel_origin i)) its
           \<and> length ops = 6 * length its"
  using assms
proof (induction its arbitrary: comic)
  case Nil
  show ?case by (rule exI [of _ "[]"]) simp
next
  case (Cons a its)
  obtain i panel img where a: "a = (i, panel, img)" by (cases a)
  from Cons.prems a have d: "drawable panel" by simp
  from place_panel_drawable [OF d, of self i img comic] obtain ops1 where
    s1: "place_panel self i panel img comic = Inr (comic\<lparr>drawn := drawn comic @ ops1\<rparr>)"
    and p1: "pasted ops1 = [(img, panel_origin i)]" and l1: "length ops1 = 6" by blast
  from Cons.prems have "\<forall>(i, panel, img) \<in> set its. drawable panel" by simp
  from Cons.IH [OF this, of "comic\<lparr>drawn := drawn comic @ ops1\<rparr>"] obtain ops2 where
    s2: "place_panels self its (comic\<lparr>drawn := drawn comic @ ops1\<rparr>) =
           Inr (comic\<lparr>drawn := drawn comic @ ops1 @ ops2\<rparr>)"
    and p2: "pasted ops2 = map (\<lambda>(i, panel, img). (img, panel_origin i)) its"
    and l2: "length ops2 = 6 * length its" by auto
  show ?case
    by (rule exI [of _ "ops1 @ ops2"]) (simp add: a s1 s2 p1 p2 l1 l2 pasted_append)
qed

lemma place_panels_Inr_drawable:
  assumes "place_panels self its comic = Inr c"
  shows "\<forall>(i, panel, img) \<in> set its. drawable panel"
  using assms
proof (induction its arbitrary: comic)
  case Nil
  show ?case by simp
next
  case (Cons a its)
  obtain i panel img where a: "a = (i, panel, img)" by (cases a)
  from Cons.prems a obtain c1 where
    s1: "place_panel self i panel img comic = Inr c1" and s2: "place_panels self its c1 = Inr c"
    by (auto split: sum.splits)
  from s1 have "drawable panel" by (rule place_panel_Inr_drawable)
  with Cons.IH [OF s2] a show ?case by simp
qed

lemma place_panels_mono:
  assumes "place_panels self its comic = Inr c"
  shows "set (drawn comic) \<subseteq> set (drawn c)"
proof -
  from place_panels_Inr_drawable [OF assms]
  obtain ops where "place_panels self its comic = Inr (comic\<lparr>drawn := drawn comic @ ops\<rparr>)"
    using place_panels_drawable [of its self comic] by blast
  with assms show ?thesis by auto
qed

lemma place_panels_ops:
  assumes "place_panels self its comic = Inr c" and "(i, panel, img) \<in> set its"
    and "getitem panel ''panel'' = Inr number" "getitem panel ''type'' = Inr ptype"
    and "getitem panel ''text'' = Inr (PyStr t)" "getitem panel ''dialogue'' = Inr (PyStr d)"
  shows "set (panel_ops self (panel_origin i) number ptype t d img) \<subseteq> set (drawn c)"
  using assms(1,2)
proof (induction its arbitrary: comic)
  case Nil
  then show ?case by simp
next
  case (Cons a its)
  obtain j panel' img' where a: "a = (j, panel', img')" by (cases a)
  from Cons.prems(1) a obtain c1 where
    s1: "place_panel self j panel' img' comic = Inr c1" and s2: "place_panels self its c1 = Inr c"
    by (auto split: sum.splits)
  show ?case
  proof (cases "a = (i, panel, img)")
    case True
    with a s1 have "place_panel self i panel img comic = Inr c1" by simp
    then have "set (panel_ops self (panel_origin i) number ptype t d img) \<subseteq> set (drawn c1)"
      unfolding place_panel_drawn [OF assms(3-6)] by auto
    with place_panels_mono [OF s2] show ?thesis by blast
  next
    case False
    with Cons.prems(2) have "(i, panel, img) \<in> set its" by simp
    from Cons.IH [OF s2 this] show ?thesis .
  qed
qed

lemma enumerate_zip_set:
  "(i, panel, img) \<in> set (enumerate 0 (zip story images)) \<longleftrightarrow>
     i < length story \<and> i < length images \<and> panel = story ! i \<and> img = images ! i"
  by (auto simp: in_set_enumerate_eq)

lemma enumerate_zip_map:
  "enumerate 0 (zip story images) =
     map (\<lambda>i. (i, story ! i, images ! i)) [0..<min (length story) (length images)]"
  by (rule nth_equalityI) (simp_all add: nth_enumerate_eq)

lemma paired_drawable:
  "(\<forall>(i, panel, img) \<in> set (enumerate 0 (zip story images)). drawable panel) \<longleftrightarrow>
     (\<forall>panel \<in> set (take (length images) story). drawable panel)"
proof
  assume L: "\<forall>(i, panel, img) \<in> set (enumerate 0 (zip story images)). drawable panel"
  show "\<forall>panel \<in> set (take (length images) story). drawable panel"
  proof
    fix panel
    assume "panel \<in> set (take (length images) story)"
    then obtain i where i: "i < length story" "i < length images" "panel = story ! i"
      by (auto simp: in_set_conv_nth)
    then have "(i, panel, images ! i) \<in> set (enumerate 0 (zip story images))"
      by (simp add: enumerate_zip_set)
    with L show "drawable panel" by blast
  qed
next
  assume R: "\<forall>panel \<in> set (take (length images) story). drawable panel"
  show "\<forall>(i, panel, img) \<in> set (enumerate 0 (zip story images)). drawable panel"
  proof (clarify)
    fix i panel img
    assume "(i, panel, img) \<in> set (enumerate 0 (zip story images))"
    then have i: "i < length story" "i < length images" "panel = story ! i"
      by (simp_all add: enumerate_zip_set)
    then have "panel \<in> set (take (length images) story)"
      by (auto simp: in_set_conv_nth intro!: exI [of _ i])
    with R show "drawable panel" by blast
  qed
qed

lemma zip_take_min:
  "zip (take (min (length xs) (length ys)) xs) (take (min (length xs) (length ys)) ys) = zip xs ys"
  by (simp add: take_zip [symmetric])

lemma assemble_comic_drawable:
  assumes "\<forall>panel \<in> set (take (length images) story_data). drawable panel"
  shows "\<exists>ops. assemble_comic self story_data images =
                 Inr \<lparr>canvas_mode = ''RGB'', canvas_size = (comic_width, comic_height),
                      canvas_color = (255, 255, 255),
                      drawn = Text (comic_width div 2 - 100, border div 2) ''Comic Story''
                                (0, 0, 0) (font_title self) # ops\<rparr>
           \<and> pasted ops = map (\<lambda>i. (images ! i, panel_origin i))
                              [0..<min (length story_data) (length images)]
           \<and> length ops = 6 * min (length story_data) (length images)"
proof -
  let ?its = "enumerate 0 (zip story_data images)"
  let ?base = "draw_text (Image_new ''RGB'' (comic_width, comic_height) (255, 255, 255))
                 (comic_width div 2 - 100, border div 2) ''Comic Story'' (0, 0, 0)
                 (font_title self)"
  from assms have "\<forall>(i, panel, img) \<in> set ?its. drawable panel"
    by (simp only: paired_drawable)
  from place_panels_drawable [OF this, of self ?base] obtain ops where
    s: "place_panels self ?its ?base = Inr (?base\<lparr>drawn := drawn ?base @ ops\<rparr>)"
    and p: "pasted ops = map (\<lambda>(i, panel, img). (img, panel_origin i)) ?its"
    and l: "length ops = 6 * length ?its" by blast
  have p': "pasted ops = map (\<lambda>i. (images ! i, panel_origin i))
                           [0..<min (length story_data) (length images)]"
    unfolding p enumerate_zip_map by simp
  have l': "length ops = 6 * min (length story_data) (length images)"
    unfolding l by simp
  have "assemble_comic self story_data images = Inr (?base\<lparr>drawn := drawn ?base @ ops\<rparr>)"
    unfolding assemble_comic_def Let_def by (rule s)
  then show ?thesis
    using p' l' by (intro exI [of _ ops]) (simp add: draw_text_def Image_new_def)
qed

lemma assemble_comic_Inr_drawable:
  assumes "assemble_comic self story_data images = Inr c"
  shows "\<forall>panel \<in> set (take (length images) story_data). drawable panel"
proof -
  from assms have "\<forall>(i, panel, img) \<in> set (enumerate 0 (zip story_data images)). drawable panel"
    unfolding assemble_comic_def Let_def by (rule place_panels_Inr_drawable)
  then show ?thesis by (simp only: paired_drawable)
qed

lemma assemble_comic_ops:
  assumes "assemble_comic self story_data images = Inr c"
    and "i < length story_data" "i < length images"
    and "getitem (story_data ! i) ''panel'' = Inr number"
        "getitem (story_data ! i) ''type'' = Inr ptype"
    and "getitem (story_data ! i) ''text'' = Inr (PyStr t)"
        "getitem (story_data ! i) ''dialogue'' = Inr (PyStr d)"
  shows "set (panel_ops self (panel_origin i) number ptype t d (images ! i)) \<subseteq> set (drawn c)"
proof -
  from assms(2,3) have "(i, story_data ! i, images ! i) \<in> set (enumerate 0 (zip story_data images))"
    by (simp add: enumerate_zip_set)
  with assms(1) show ?thesis
    unfolding assemble_comic_def Let_def
    by (rule place_panels_ops) (rule assms)+
qed

lemma panel_origin_values:
  "panel_origin 0 = (20, 20)" "panel_origin (Suc 0) = (552, 20)"
  "panel_origin 2 = (20, 640)" "panel_origin 3 = (552, 640)"
  by (simp_all add: panel_origin_def border_def panel_width_def panel_height_def)

lemma canvas_values: "comic_width = 1084" "comic_height = 1260"
  by (simp_all add: comic_width_def comic_height_def border_def panel_width_def panel_height_def)


text \<open>The sample story of the examples.\<close>

lemma sample_story_drawable: "\<forall>panel \<in> set sample_story. drawable panel"
  by (simp add: sample_story_def sample_panel_def drawable_def)

lemma sample_story_length: "length sample_story = 4"
  by (simp add: sample_story_def)

lemma sample_story_take_drawable: "\<forall>panel \<in> set (take n sample_story). drawable panel"
  using sample_story_drawable by (meson in_set_takeD)

lemma sample_story_0:
  "getitem (sample_story ! 0) ''text''
     = Inr (PyStr ''A small robot finds a box of paints in the attic and opens it slowly'')"
  "getitem (sample_story ! 0) ''dialogue''
     = Inr (PyStr ''What are these colours for, and why do they smell so odd?'')"
  by (simp_all add: sample_story_def sample_panel_def getitem_def)


section \<open>Properties of the main function\<close>
























section \<open>The claims of the specification\<close>

subsection \<open>Story generation\<close>

text \<open>
  \<^bold>\<open>C4, as amended.\<close> For every user prompt for which each of the four calls of the text
  service returns a response from which the generated text can be read (whatever that text
  is), \<open>generate_story\<close> returns exactly four panels whose \<^verbatim>\<open>type\<close> fields are, in this
  order, Introduction, Storyline, Climax and Resolution.
\<close>

theorem generate_story_four_panels_in_order:
  assumes "\<And>i. i < 4 \<Longrightarrow>
             \<exists>content. fetch_content self i (panel_prompt (panel_types ! i) prompt) = Inr content"
  shows "\<exists>panels. generate_story self prompt = Inr panels \<and> length panels = 4 \<and>
           map (\<lambda>panel. getitem panel ''type'') panels =
             [Inr (PyStr ''Introduction''), Inr (PyStr ''Storyline''),
              Inr (PyStr ''Climax''), Inr (PyStr ''Resolution'')]"
proof -
  from generate_story_returns_ex [OF assms] obtain content where
    "generate_story self prompt =
       Inr (map (\<lambda>i. make_panel i (panel_types ! i)
                        (panel_fields i (panel_types ! i) prompt (content i)))
              [0, 1, 2, 3])"
    by blast
  then show ?thesis
    by (simp add: getitem_make_panel_type panel_types_def)
qed

theorem generate_story_four_panels_in_order_witness:
  "\<exists>panels. generate_story (stub_story_generator (PyStr ''A | B | C'')) ''a robot learns to paint''
               = Inr panels \<and> length panels = 4 \<and>
           map (\<lambda>panel. getitem panel ''type'') panels =
             [Inr (PyStr ''Introduction''), Inr (PyStr ''Storyline''),
              Inr (PyStr ''Climax''), Inr (PyStr ''Resolution'')]"
  using generate_story_four_panels_in_order
          [of "stub_story_generator (PyStr ''A | B | C'')" "''a robot learns to paint''"]
  by (simp add: stub_story_generator_def fetch_content_def generated_text_def getitem_def)

text \<open>
  The claim C4 as the specification states it fails: when the first call of the text
  service raises, \<open>generate_story\<close> raises too and returns no panel.
\<close>

theorem generate_story_raises_counterexample:
  "generate_story (failing_story_generator 0) ''a robot learns to paint''
     = Inl (ServiceError ''CUDA out of memory'')"
  by (simp add: generate_story_def enumerate_panel_types failing_story_generator_def
        fetch_content_def)

text \<open>
  \<^bold>\<open>C2, as amended.\<close> When the text generated for panel \<open>i\<close> is a string with fewer than
  two pipe characters, the dialogue and the image prompt of that panel are the fixed strings
  built from the panel index, the panel type and the user prompt, and the description is the
  first 100 characters of the generated text, stripped.
\<close>

theorem few_pipes_fallback_fields:
  assumes "\<And>j. j < 4 \<Longrightarrow>
             \<exists>content. fetch_content self j (panel_prompt (panel_types ! j) prompt) = Inr content"
    and "i < 4"
    and "fetch_content self i (panel_prompt (panel_types ! i) prompt) = Inr (PyStr s)"
    and "count_list s (CHR ''|'') < 2"
  shows "\<exists>panels. generate_story self prompt = Inr panels \<and>
           getitem (panels ! i) ''text'' = Inr (PyStr (strip (take 100 s))) \<and>
           getitem (panels ! i) ''dialogue'' =
             Inr (PyStr (''Panel '' @ str_int (int i + 1) @ '' dialogue'')) \<and>
           getitem (panels ! i) ''image_prompt'' =
             Inr (PyStr (''Comic panel showing '' @ lower (panel_types ! i) @ '' about '' @ prompt
                          @ '', detailed illustration''))"
proof -
  from generate_story_returns_ex [OF assms(1)] obtain content where
    c: "\<forall>j. j < 4 \<longrightarrow>
          fetch_content self j (panel_prompt (panel_types ! j) prompt) = Inr (content j)"
    and g: "generate_story self prompt =
       Inr (map (\<lambda>j. make_panel j (panel_types ! j)
                        (panel_fields j (panel_types ! j) prompt (content j)))
              [0, 1, 2, 3])"
    by blast
  let ?panels = "map (\<lambda>j. make_panel j (panel_types ! j)
                               (panel_fields j (panel_types ! j) prompt (content j)))
                     [0, 1, 2, 3]"
  from c assms(2) assms(3) have ci: "content i = PyStr s" by simp
  have n: "?panels ! i =
             make_panel i (panel_types ! i)
               (strip (take 100 s),
                ''Panel '' @ str_int (int i + 1) @ '' dialogue'',
                ''Comic panel showing '' @ lower (panel_types ! i) @ '' about '' @ prompt
                  @ '', detailed illustration'')"
    by (simp only: nth_four [OF assms(2)] ci panel_fields_few_pipes [OF assms(4)])
  show ?thesis
  proof (intro exI conjI)
    show "generate_story self prompt = Inr ?panels" by (rule g)
  qed (simp_all only: n getitem_make_panel)
qed

theorem few_pipes_fallback_fields_witness:
  "\<exists>panels. generate_story (stub_story_generator (PyStr '' no pipes here '')) ''cats'' = Inr panels \<and>
           getitem (panels ! 2) ''text'' = Inr (PyStr ''no pipes here'') \<and>
           getitem (panels ! 2) ''dialogue'' = Inr (PyStr ''Panel 3 dialogue'') \<and>
           getitem (panels ! 2) ''image_prompt'' =
             Inr (PyStr ''Comic panel showing climax about cats, detailed illustration'')"
  using few_pipes_fallback_fields
          [of "stub_story_generator (PyStr '' no pipes here '')" "''cats''" 2 "'' no pipes here ''"]
  by (simp add: stub_story_generator_def fetch_content_def generated_text_def getitem_def
        panel_types_def strip_def isspace_def
        str_int_def digits10.simps lower_panel_types)

text \<open>
  The claim C2 as the specification states it fails: two answers without any pipe, for the
  same panel index, panel type and user prompt, give two different descriptions.
\<close>

theorem few_pipes_description_counterexample:
  "count_list ''one day'' (CHR ''|'') < 2 \<and> count_list ''far away'' (CHR ''|'') < 2 \<and>
   generate_story (stub_story_generator (PyStr ''one day'')) ''cats'' =
     Inr [[(''panel'', PyInt 1), (''type'', PyStr ''Introduction''), (''text'', PyStr ''one day''),
           (''dialogue'', PyStr ''Panel 1 dialogue''),
           (''image_prompt'',
            PyStr ''Comic panel showing introduction about cats, detailed illustration'')],
          [(''panel'', PyInt 2), (''type'', PyStr ''Storyline''), (''text'', PyStr ''one day''),
           (''dialogue'', PyStr ''Panel 2 dialogue''),
           (''image_prompt'',
            PyStr ''Comic panel showing storyline about cats, detailed illustration'')],
          [(''panel'', PyInt 3), (''type'', PyStr ''Climax''), (''text'', PyStr ''one day''),
           (''dialogue'', PyStr ''Panel 3 dialogue''),
           (''image_prompt'',
            PyStr ''Comic panel showing climax about cats, detailed illustration'')],
          [(''panel'', PyInt 4), (''type'', PyStr ''Resolution''), (''text'', PyStr ''one day''),
           (''dialogue'', PyStr ''Panel 4 dialogue''),
           (''image_prompt'',
            PyStr ''Comic panel showing resolution about cats, detailed illustration'')]] \<and>
   generate_story (stub_story_generator (PyStr ''far away'')) ''cats'' =
     Inr [[(''panel'', PyInt 1), (''type'', PyStr ''Introduction''), (''text'', PyStr ''far away''),
           (''dialogue'', PyStr ''Panel 1 dialogue''),
           (''image_prompt'',
            PyStr ''Comic panel showing introduction about cats, detailed illustration'')],
          [(''panel'', PyInt 2), (''type'', PyStr ''Storyline''), (''text'', PyStr ''far away''),
           (''dialogue'', PyStr ''Panel 2 dialogue''),
           (''image_prompt'',
            PyStr ''Comic panel showing storyline about cats, detailed illustration'')],
          [(''panel'', PyInt 3), (''type'', PyStr ''Climax''), (''text'', PyStr ''far away''),
           (''dialogue'', PyStr ''Panel 3 dialogue''),
           (''image_prompt'',
            PyStr ''Comic panel showing climax about cats, detailed illustration'')],
          [(''panel'', PyInt 4), (''type'', PyStr ''Resolution''), (''text'', PyStr ''far away''),
           (''dialogue'', PyStr ''Panel 4 dialogue''),
           (''image_prompt'',
            PyStr ''Comic panel showing resolution about cats, detailed illustration'')]]"
  by (simp add: generate_story_def enumerate_panel_types stub_story_generator_def
        fetch_content_def generated_text_def getitem_def
        panel_fields_def parse_content_def make_panel_def strip_def isspace_def
        str_int_def digits10.simps lower_panel_types)

text \<open>
  \<^bold>\<open>C3, as amended.\<close> When each of the four calls of the text service returns a response
  from which the generated text can be read, an exception raised while the text for panel
  \<open>i\<close> is parsed is caught: the story still has four panels, and panel \<open>i\<close> holds the three
  strings of the handler.
\<close>

theorem parsing_exception_replaced_by_fallback:
  assumes "\<And>j. j < 4 \<Longrightarrow>
             \<exists>content. fetch_content self j (panel_prompt (panel_types ! j) prompt) = Inr content"
    and "i < 4"
    and "fetch_content self i (panel_prompt (panel_types ! i) prompt) = Inr content"
    and "parse_content i (panel_types ! i) prompt content = Inl e"
  shows "\<exists>panels. generate_story self prompt = Inr panels \<and> length panels = 4 \<and>
           panels ! i =
             make_panel i (panel_types ! i)
               (''Panel '' @ str_int (int i + 1) @ '': '' @ panel_types ! i,
                ''Panel '' @ str_int (int i + 1) @ '' dialogue'',
                ''Comic panel showing '' @ lower (panel_types ! i) @ '' about '' @ prompt
                  @ '', detailed illustration'')"
proof -
  from generate_story_returns_ex [OF assms(1)] obtain answers where
    c: "\<forall>j. j < 4 \<longrightarrow>
          fetch_content self j (panel_prompt (panel_types ! j) prompt) = Inr (answers j)"
    and g: "generate_story self prompt =
       Inr (map (\<lambda>j. make_panel j (panel_types ! j)
                        (panel_fields j (panel_types ! j) prompt (answers j)))
              [0, 1, 2, 3])"
    by blast
  let ?panels = "map (\<lambda>j. make_panel j (panel_types ! j)
                               (panel_fields j (panel_types ! j) prompt (answers j)))
                     [0, 1, 2, 3]"
  from c assms(2) assms(3) have ci: "answers i = content" by simp
  show ?thesis
  proof (intro exI conjI)
    show "generate_story self prompt = Inr ?panels" by (rule g)
    show "length ?panels = 4" by simp
    show "?panels ! i =
            make_panel i (panel_types ! i)
              (''Panel '' @ str_int (int i + 1) @ '': '' @ panel_types ! i,
               ''Panel '' @ str_int (int i + 1) @ '' dialogue'',
               ''Comic panel showing '' @ lower (panel_types ! i) @ '' about '' @ prompt
                 @ '', detailed illustration'')"
      by (simp only: nth_four [OF assms(2)] ci panel_fields_raises [OF assms(4)])
  qed
qed

theorem parsing_exception_replaced_by_fallback_witness:
  "parse_content 2 ''Climax'' ''cats'' PyNone = Inl AttributeError \<and>
   (\<exists>panels. generate_story (stub_story_generator PyNone) ''cats'' = Inr panels \<and>
      length panels = 4 \<and>
      panels ! 2 =
        [(''panel'', PyInt 3), (''type'', PyStr ''Climax''), (''text'', PyStr ''Panel 3: Climax''),
         (''dialogue'', PyStr ''Panel 3 dialogue''),
         (''image_prompt'', PyStr ''Comic panel showing climax about cats, detailed illustration'')])"
  using parsing_exception_replaced_by_fallback
          [of "stub_story_generator PyNone" "''cats''" 2 PyNone AttributeError]
  by (simp add: stub_story_generator_def fetch_content_def generated_text_def getitem_def
        panel_types_def parse_content_def make_panel_def
        str_int_def digits10.simps lower_panel_types)

text \<open>
  The claim C3 as the specification states it fails: the call of the text service and the
  read of \<^verbatim>\<open>response[0]['generated_text']\<close> stand before the \<^verbatim>\<open>try\<close>. An exception that
  the call raises for the third panel ends \<open>generate_story\<close> with that exception, and so
  does the \<^verbatim>\<open>IndexError\<close> of an empty response for the first panel; no story is returned.
\<close>

theorem generation_exception_counterexample:
  "generator (failing_story_generator 2) 2 (panel_prompt ''Climax'' ''cats'') text_kwargs
     = Inl (ServiceError ''CUDA out of memory'') \<and>
   generate_story (failing_story_generator 2) ''cats'' = Inl (ServiceError ''CUDA out of memory'') \<and>
   generator empty_response_story_generator 0 (panel_prompt ''Introduction'' ''cats'') text_kwargs
     = Inr [] \<and>
   generate_story empty_response_story_generator ''cats'' = Inl IndexError"
  by (simp add: generate_story_def enumerate_panel_types failing_story_generator_def
        empty_response_story_generator_def fetch_content_def generated_text_def getitem_def)

subsection \<open>Image generation\<close>

text \<open>
  \<^bold>\<open>C5.\<close> For every image prompt and every style, \<open>generate_image\<close> calls the pipeline with
  the style prefix, then a comma and a space, then the image prompt; a style that is not one
  of the four keys has the prefix of the style \<^verbatim>\<open>comic\<close> and raises nothing; for the style
  \<^verbatim>\<open>manga\<close> the prompt starts with \<^verbatim>\<open>manga style, black and white, \<close>.
\<close>

theorem generate_image_prompt:
  "(\<exists>prefix. style_prompt style = Inr prefix \<and>
      generate_image self k image_prompt style =
        pipe self k (prefix @ '', '' @ image_prompt) image_kwargs) \<and>
   (style \<notin> {''comic'', ''manga'', ''superhero'', ''cartoon''} \<longrightarrow>
      style_prompt style = style_prompt ''comic'') \<and>
   style_prompt ''comic'' = Inr ''comic book style, detailed illustration'' \<and>
   generate_image self k image_prompt ''manga'' =
     pipe self k (''manga style, black and white, '' @ image_prompt) image_kwargs"
  by (simp add: generate_image_def style_prompt_def styles_def)

theorem generate_image_prompt_witness:
  "''noir'' \<notin> {''comic'', ''manga'', ''superhero'', ''cartoon''} \<and>
   style_prompt ''noir'' = Inr ''comic book style, detailed illustration'' \<and>
   generate_image stub_image_generator 3 ''a robot'' ''noir'' = Inr 3 \<and>
   generate_image stub_image_generator 3 ''a robot'' ''manga''
     = pipe stub_image_generator 3 ''manga style, black and white, a robot'' image_kwargs"
  using generate_image_prompt [of "''noir''" stub_image_generator 3 "''a robot''"]
  by (auto simp: stub_image_generator_def)

subsection \<open>Composition\<close>

text \<open>
  \<^bold>\<open>C1, as amended.\<close> \<open>assemble_comic\<close> does not look at the two lengths. It returns a canvas
  exactly when every panel that \<^verbatim>\<open>zip\<close> pairs with an image can be drawn (it has the four
  keys the loop reads, with strings for the two captions); whether the lengths are 4, or
  equal, plays no part.
\<close>

theorem assemble_comic_fails_only_on_malformed_panel:
  "(\<exists>comic. assemble_comic self story_data images = Inr comic) \<longleftrightarrow>
     (\<forall>panel \<in> set (take (length images) story_data). drawable panel)"
proof
  assume "\<exists>comic. assemble_comic self story_data images = Inr comic"
  then obtain comic where "assemble_comic self story_data images = Inr comic" ..
  then show "\<forall>panel \<in> set (take (length images) story_data). drawable panel"
    by (rule assemble_comic_Inr_drawable)
next
  assume "\<forall>panel \<in> set (take (length images) story_data). drawable panel"
  from assemble_comic_drawable [OF this, of self]
  show "\<exists>comic. assemble_comic self story_data images = Inr comic" by blast
qed

theorem assemble_comic_fails_only_on_malformed_panel_witness:
  "length (take 3 sample_story) = 3 \<and> length [7, 8 :: nat] = 2 \<and>
   (\<exists>comic. assemble_comic default_assembler (take 3 sample_story) [7, 8 :: nat] = Inr comic) \<and>
   \<not> (\<exists>comic. assemble_comic default_assembler [[(''panel'', PyInt 1)]] [7 :: nat] = Inr comic)"
  using assemble_comic_fails_only_on_malformed_panel
          [of default_assembler "take 3 sample_story" "[7, 8 :: nat]"]
        assemble_comic_fails_only_on_malformed_panel
          [of default_assembler "[[(''panel'', PyInt 1)]]" "[7 :: nat]"]
  by (simp add: sample_story_def sample_panel_def drawable_def)

text \<open>
  The claim C1 as the specification states it fails: with one panel and two images the
  composer returns a canvas, on which the one panel is drawn.
\<close>

theorem assemble_comic_length_counterexample:
  "length [sample_panel 0 ''Introduction'' ''A robot wakes'' ''Hello''] \<noteq> 4 \<and>
   length [5, 6 :: nat] \<noteq> 4 \<and>
   assemble_comic default_assembler
     [sample_panel 0 ''Introduction'' ''A robot wakes'' ''Hello''] [5, 6 :: nat] =
     Inr \<lparr>canvas_mode = ''RGB'', canvas_size = (1084, 1260), canvas_color = (255, 255, 255),
          drawn =
            [Text (442, 10) ''Comic Story'' (0, 0, 0) DefaultFont,
             Paste 5 (20, 20),
             Rectangle [20, 20, 532, 532] None (Some (0, 0, 0)) 2,
             Rectangle [20, 532, 532, 620] (Some (240, 240, 240)) (Some (0, 0, 0)) 2,
             Text (30, 537) ''Panel 1: Introduction'' (0, 0, 0) DefaultFont,
             Text (30, 562) ''A robot wakes'' (0, 0, 100) DefaultFont,
             Text (30, 592) (CHR 0x22 # ''Hello'' @ [CHR 0x22]) (150, 0, 0) DefaultFont]\<rparr>"
  by (simp add: assemble_comic_def place_panel_def panel_origin_def Image_new_def paste_def
        draw_rectangle_def draw_text_def getitem_def sample_panel_def shorten_def
        default_assembler_def comic_width_def comic_height_def border_def panel_width_def
        panel_height_def str_int_def digits10.simps dquote_def)

text \<open>
  \<^bold>\<open>C6.\<close> In the composed canvas, a description longer than 60 characters is drawn as its
  first 57 characters followed by three dots, 60 characters in all, and a shorter one is drawn
  unchanged; a dialogue longer than 40 characters is drawn as its first 37 characters followed
  by three dots, and a shorter one unchanged. The dialogue is drawn between double quotes.
  The description of panel \<open>i\<close> stands 30 pixels below the image, the dialogue 60 pixels.
\<close>

theorem caption_truncation:
  assumes "\<forall>panel \<in> set (take (length images) story_data). drawable panel"
    and "i < length story_data" "i < length images"
    and "getitem (story_data ! i) ''text'' = Inr (PyStr t)"
    and "getitem (story_data ! i) ''dialogue'' = Inr (PyStr d)"
    and "panel_origin i = (x, y)"
  shows "\<exists>comic. assemble_comic self story_data images = Inr comic \<and>
           Text (x + 10, y + panel_width + 30)
             (if 60 < length t then take 57 t @ ''...'' else t) (0, 0, 100) (font_text self)
             \<in> set (drawn comic) \<and>
           Text (x + 10, y + panel_width + 60)
             (dquote @ (if 40 < length d then take 37 d @ ''...'' else d) @ dquote)
             (150, 0, 0) (font_dialogue self)
             \<in> set (drawn comic) \<and>
           (60 < length t \<longrightarrow> length (take 57 t @ ''...'') = 60) \<and>
           (40 < length d \<longrightarrow> length (take 37 d @ ''...'') = 40)"
proof -
  from assemble_comic_drawable [OF assms(1), of self] obtain comic where
    c: "assemble_comic self story_data images = Inr comic" by blast
  from assms(1,2,3) have "drawable (story_data ! i)"
    by (auto simp: in_set_conv_nth intro!: exI [of _ i] dest!: bspec)
  then obtain number ptype t' d' where
    g: "getitem (story_data ! i) ''panel'' = Inr number"
       "getitem (story_data ! i) ''type'' = Inr ptype"
    by (rule drawableE)
  from assemble_comic_ops [OF c assms(2,3) g assms(4,5)]
  have "set (panel_ops self (x, y) number ptype t d (images ! i)) \<subseteq> set (drawn comic)"
    by (simp add: assms(6))
  then show ?thesis
    using c by (simp add: panel_ops_def)
qed

theorem caption_truncation_witness:
  "\<exists>comic. assemble_comic default_assembler sample_story [0, 1, 2, 3 :: nat] = Inr comic \<and>
     Text (30, 562) ''A small robot finds a box of paints in the attic and open...''
       (0, 0, 100) DefaultFont \<in> set (drawn comic) \<and>
     Text (30, 592) (CHR 0x22 # ''What are these colours for, and why d...'' @ [CHR 0x22])
       (150, 0, 0) DefaultFont \<in> set (drawn comic)"
proof -
  have "\<exists>comic. assemble_comic default_assembler sample_story [0, 1, 2, 3 :: nat] = Inr comic \<and>
           Text (20 + 10, 20 + panel_width + 30)
             (if 60 < length ''A small robot finds a box of paints in the attic and opens it slowly''
              then take 57 ''A small robot finds a box of paints in the attic and opens it slowly''
                   @ ''...''
              else ''A small robot finds a box of paints in the attic and opens it slowly'')
             (0, 0, 100) (font_text default_assembler)
             \<in> set (drawn comic) \<and>
           Text (20 + 10, 20 + panel_width + 60)
             (dquote @ (if 40 < length ''What are these colours for, and why do they smell so odd?''
                        then take 37 ''What are these colours for, and why do they smell so odd?''
                             @ ''...''
                        else ''What are these colours for, and why do they smell so odd?'') @ dquote)
             (150, 0, 0) (font_dialogue default_assembler)
             \<in> set (drawn comic) \<and>
           (60 < length ''A small robot finds a box of paints in the attic and opens it slowly'' \<longrightarrow>
              length (take 57 ''A small robot finds a box of paints in the attic and opens it slowly''
                      @ ''...'') = 60) \<and>
           (40 < length ''What are these colours for, and why do they smell so odd?'' \<longrightarrow>
              length (take 37 ''What are these colours for, and why do they smell so odd?''
                      @ ''...'') = 40)"
    by (rule caption_truncation [where i = 0])
       (simp_all add: sample_story_drawable sample_story_length sample_story_0 panel_origin_values)
  then show ?thesis
    by (simp add: panel_width_def default_assembler_def dquote_def)
qed

text \<open>
  \<^bold>\<open>C7, as amended.\<close> For every story of four panels and every four images the canvas has
  the size that the constants give, whatever the images and the captions are: it is
  \<open>2 * 512 + 3 * 20 = 1084\<close> wide and \<open>2 * 600 + 3 * 20 = 1260\<close> high.
\<close>

theorem canvas_size_fixed:
  assumes "length story_data = 4" and "length images = 4"
    and "\<forall>panel \<in> set story_data. drawable panel"
  shows "\<exists>comic. assemble_comic self story_data images = Inr comic \<and>
           canvas_size comic = (2 * panel_width + 3 * border, 2 * panel_height + 3 * border) \<and>
           canvas_size comic = (1084, 1260)"
proof -
  from assms have "\<forall>panel \<in> set (take (length images) story_data). drawable panel" by simp
  from assemble_comic_drawable [OF this, of self] obtain comic where
    "assemble_comic self story_data images = Inr comic"
    "canvas_size comic = (comic_width, comic_height)" by auto
  then show ?thesis
    by (auto simp: comic_width_def comic_height_def border_def panel_width_def panel_height_def)
qed

theorem canvas_size_fixed_witness:
  "\<exists>comic. assemble_comic default_assembler sample_story [0, 1, 2, 3 :: nat] = Inr comic \<and>
     canvas_size comic = (1084, 1260)"
proof -
  have "\<exists>comic. assemble_comic default_assembler sample_story [0, 1, 2, 3 :: nat] = Inr comic \<and>
          canvas_size comic = (2 * panel_width + 3 * border, 2 * panel_height + 3 * border) \<and>
          canvas_size comic = (1084, 1260)"
    by (rule canvas_size_fixed) (simp_all add: sample_story_length sample_story_drawable)
  then show ?thesis by blast
qed

text \<open>
  The claim C7 as the specification states it fails in the height, which is 1260 and not
  1240.
\<close>

theorem canvas_height_counterexample:
  "length sample_story = 4 \<and> length [0, 1, 2, 3 :: nat] = 4 \<and>
   map_sum id canvas_size (assemble_comic default_assembler sample_story [0, 1, 2, 3 :: nat])
     = Inr (1084, 1260) \<and>
   map_sum id canvas_size (assemble_comic default_assembler sample_story [0, 1, 2, 3 :: nat])
     \<noteq> Inr (1084, 1240)"
proof -
  from assemble_comic_drawable
         [where images = "[0, 1, 2, 3 :: nat]" and story_data = sample_story
            and self = default_assembler, OF sample_story_take_drawable]
  obtain comic where
    "assemble_comic default_assembler sample_story [0, 1, 2, 3 :: nat] = Inr comic"
    "canvas_size comic = (comic_width, comic_height)" by auto
  then show ?thesis by (simp add: canvas_values sample_story_length)
qed

text \<open>
  \<^bold>\<open>C8.\<close> The images are pasted in story order, image \<open>i\<close> at
  \<open>x = border + (i mod 2) * (panel_width + border)\<close> and
  \<open>y = border + (i div 2) * (panel_height + border)\<close>: with four panels, panel 0 is top left,
  panel 1 top right, panel 2 bottom left and panel 3 bottom right.
\<close>

theorem panels_row_major:
  assumes "\<forall>panel \<in> set (take (length images) story_data). drawable panel"
  shows "\<exists>comic. assemble_comic self story_data images = Inr comic \<and>
           pasted (drawn comic) =
             map (\<lambda>i. (images ! i,
                        (border + int (i mod 2) * (panel_width + border),
                         border + int (i div 2) * (panel_height + border))))
               [0..<min (length story_data) (length images)] \<and>
           (length story_data = 4 \<and> length images = 4 \<longrightarrow>
              pasted (drawn comic) =
                [(images ! 0, (20, 20)), (images ! 1, (552, 20)),
                 (images ! 2, (20, 640)), (images ! 3, (552, 640))])"
proof -
  from assemble_comic_drawable [OF assms, of self] obtain comic where
    c: "assemble_comic self story_data images = Inr comic"
    and p: "pasted (drawn comic) =
              map (\<lambda>i. (images ! i, panel_origin i)) [0..<min (length story_data) (length images)]"
    by auto
  have four: "[0..<4] = [0, Suc 0, 2, 3]" by (simp add: upt_rec)
  have "pasted (drawn comic) =
          [(images ! 0, (20, 20)), (images ! 1, (552, 20)),
           (images ! 2, (20, 640)), (images ! 3, (552, 640))]"
    if "length story_data = 4 \<and> length images = 4"
    using that unfolding p by (simp add: four panel_origin_values)
  moreover have "pasted (drawn comic) =
             map (\<lambda>i. (images ! i,
                        (border + int (i mod 2) * (panel_width + border),
                         border + int (i div 2) * (panel_height + border))))
               [0..<min (length story_data) (length images)]"
    unfolding p by (simp add: panel_origin_def)
  ultimately show ?thesis using c by blast
qed

theorem panels_row_major_witness:
  "\<exists>comic. assemble_comic default_assembler sample_story [10, 11, 12, 13 :: nat] = Inr comic \<and>
     pasted (drawn comic) = [(10, (20, 20)), (11, (552, 20)), (12, (20, 640)), (13, (552, 640))]"
proof -
  let ?images = "[10, 11, 12, 13 :: nat]"
  have "\<exists>comic. assemble_comic default_assembler sample_story ?images = Inr comic \<and>
           pasted (drawn comic) =
             map (\<lambda>i. (?images ! i,
                        (border + int (i mod 2) * (panel_width + border),
                         border + int (i div 2) * (panel_height + border))))
               [0..<min (length sample_story) (length ?images)] \<and>
           (length sample_story = 4 \<and> length ?images = 4 \<longrightarrow>
              pasted (drawn comic) =
                [(?images ! 0, (20, 20)), (?images ! 1, (552, 20)),
                 (?images ! 2, (20, 640)), (?images ! 3, (552, 640))])"
    by (rule panels_row_major) (rule sample_story_take_drawable)
  then obtain comic where
    "assemble_comic default_assembler sample_story ?images = Inr comic"
    "length sample_story = 4 \<and> length ?images = 4 \<longrightarrow>
       pasted (drawn comic) =
         [(?images ! 0, (20, 20)), (?images ! 1, (552, 20)),
          (?images ! 2, (20, 640)), (?images ! 3, (552, 640))]"
    by blast
  then show ?thesis by (simp add: sample_story_length)
qed

text \<open>
  \<^bold>\<open>C10.\<close> With a story of \<open>n\<close> panels and \<open>m\<close> images, also when \<open>n\<close> and \<open>m\<close> differ,
  \<open>assemble_comic\<close> raises nothing: it composes the first \<open>k = min n m\<close> panels, panel \<open>i\<close>
  with image \<open>i\<close> at the position of index \<open>i\<close>, makes the title and six drawing calls for
  each of them, ignores the surplus (the result is that of the two sequences cut to \<open>k\<close>) and
  returns the canvas of the fixed size.
\<close>

theorem unequal_lengths_compose_shorter:
  assumes "\<forall>panel \<in> set (take (length images) story_data). drawable panel"
    and "k = min (length story_data) (length images)"
  shows "\<exists>comic. assemble_comic self story_data images = Inr comic \<and>
           canvas_size comic = (comic_width, comic_height) \<and>
           pasted (drawn comic) = map (\<lambda>i. (images ! i, panel_origin i)) [0..<k] \<and>
           length (drawn comic) = 1 + 6 * k \<and>
           (\<forall>i < k. \<forall>number ptype.
              getitem (story_data ! i) ''panel'' = Inr number \<longrightarrow>
              getitem (story_data ! i) ''type'' = Inr ptype \<longrightarrow>
              Text (fst (panel_origin i) + 10, snd (panel_origin i) + panel_width + 5)
                (''Panel '' @ py_str number @ '': '' @ py_str ptype) (0, 0, 0) (font_text self)
                \<in> set (drawn comic)) \<and>
           assemble_comic self (take k story_data) (take k images) = Inr comic"
proof -
  from assemble_comic_drawable [OF assms(1), of self] obtain comic where
    c: "assemble_comic self story_data images = Inr comic"
    and sz: "canvas_size comic = (comic_width, comic_height)"
    and p: "pasted (drawn comic) = map (\<lambda>i. (images ! i, panel_origin i)) [0..<k]"
    and l: "length (drawn comic) = 1 + 6 * k"
    unfolding assms(2) by auto
  have same: "assemble_comic self (take k story_data) (take k images) = Inr comic"
    using c unfolding assemble_comic_def assms(2) zip_take_min .
  have labels: "Text (fst (panel_origin i) + 10, snd (panel_origin i) + panel_width + 5)
                  (''Panel '' @ py_str number @ '': '' @ py_str ptype) (0, 0, 0) (font_text self)
                  \<in> set (drawn comic)"
    if "i < k" and n: "getitem (story_data ! i) ''panel'' = Inr number"
      and ty: "getitem (story_data ! i) ''type'' = Inr ptype" for i number ptype
  proof -
    from that(1) assms(2) have i: "i < length story_data" "i < length images" by simp_all
    with assms(1) have "drawable (story_data ! i)"
      by (auto simp: in_set_conv_nth intro!: exI [of _ i] dest!: bspec)
    then obtain number' ptype' t d where
      g: "getitem (story_data ! i) ''text'' = Inr (PyStr t)"
         "getitem (story_data ! i) ''dialogue'' = Inr (PyStr d)"
      by (rule drawableE)
    from assemble_comic_ops [OF c i n ty g]
    show ?thesis by (cases "panel_origin i") (simp add: panel_ops_def)
  qed
  from c sz p l same labels show ?thesis by blast
qed

theorem unequal_lengths_compose_shorter_witness:
  "length sample_story \<noteq> length [10, 11 :: nat] \<and>
   (\<exists>comic. assemble_comic default_assembler sample_story [10, 11 :: nat] = Inr comic \<and>
      canvas_size comic = (1084, 1260) \<and>
      pasted (drawn comic) = [(10, (20, 20)), (11, (552, 20))] \<and>
      length (drawn comic) = 13 \<and>
      Text (562, 537) ''Panel 2: Storyline'' (0, 0, 0) DefaultFont \<in> set (drawn comic) \<and>
      assemble_comic default_assembler (take 2 sample_story) [10, 11 :: nat] = Inr comic)"
proof -
  let ?images = "[10, 11 :: nat]"
  have "\<exists>comic. assemble_comic default_assembler sample_story ?images = Inr comic \<and>
           canvas_size comic = (comic_width, comic_height) \<and>
           pasted (drawn comic) = map (\<lambda>i. (?images ! i, panel_origin i)) [0..<2] \<and>
           length (drawn comic) = 1 + 6 * 2 \<and>
           (\<forall>i < 2. \<forall>number ptype.
              getitem (sample_story ! i) ''panel'' = Inr number \<longrightarrow>
              getitem (sample_story ! i) ''type'' = Inr ptype \<longrightarrow>
              Text (fst (panel_origin i) + 10, snd (panel_origin i) + panel_width + 5)
                (''Panel '' @ py_str number @ '': '' @ py_str ptype) (0, 0, 0)
                (font_text default_assembler)
                \<in> set (drawn comic)) \<and>
           assemble_comic default_assembler (take 2 sample_story) (take 2 ?images) = Inr comic"
    by (rule unequal_lengths_compose_shorter)
       (simp_all add: sample_story_take_drawable sample_story_length)
  then obtain comic where
    c: "assemble_comic default_assembler sample_story ?images = Inr comic"
       "canvas_size comic = (comic_width, comic_height)"
       "pasted (drawn comic) = map (\<lambda>i. (?images ! i, panel_origin i)) [0..<2]"
       "length (drawn comic) = 1 + 6 * 2"
       "assemble_comic default_assembler (take 2 sample_story) (take 2 ?images) = Inr comic"
    and lab: "\<forall>i < 2. \<forall>number ptype.
              getitem (sample_story ! i) ''panel'' = Inr number \<longrightarrow>
              getitem (sample_story ! i) ''type'' = Inr ptype \<longrightarrow>
              Text (fst (panel_origin i) + 10, snd (panel_origin i) + panel_width + 5)
                (''Panel '' @ py_str number @ '': '' @ py_str ptype) (0, 0, 0)
                (font_text default_assembler)
                \<in> set (drawn comic)"
    by blast
  have g: "getitem (sample_story ! 1) ''panel'' = Inr (PyInt 2)"
          "getitem (sample_story ! 1) ''type'' = Inr (PyStr ''Storyline'')"
    by (simp_all add: sample_story_def sample_panel_def getitem_def)
  from lab [rule_format, of 1, OF _ g] have "Text (fst (panel_origin 1) + 10, snd (panel_origin 1) + panel_width + 5)
                (''Panel '' @ py_str (PyInt 2) @ '': '' @ py_str (PyStr ''Storyline'')) (0, 0, 0)
                (font_text default_assembler) \<in> set (drawn comic)"
    by simp
  then have "Text (562, 537) ''Panel 2: Storyline'' (0, 0, 0) DefaultFont \<in> set (drawn comic)"
    by (simp add: panel_origin_values panel_width_def default_assembler_def str_int_def
          digits10.simps)
  with c show ?thesis
    by (simp add: canvas_values panel_origin_values sample_story_length upt_rec)
qed

subsection \<open>The main function\<close>




end
